theory Spec2Isabelle
  imports Complex_Main "HOL-Library.Sublist"
begin

section \<open>JavaScript values as they reach the views\<close>

text \<open>
  The three pages (Dashboard, Settings, Logs) store response bodies as they arrive and read
  them with member access, optional chaining and the \<open>||\<close> operator. A body is therefore
  kept as an untyped value: what a JSON parser can produce, plus \<open>undefined\<close> for a
  property that is not there. \<open>JObj\<close> lists the properties of a parsed object, each
  name once.

  A handler is modelled from its call to its end. How each request it awaits ends is an
  argument (\<open>Inl\<close>: the call rejected, \<open>Inr\<close>: the body of the response); the
  requests it issues are appended to a list that is passed along with the page's state.
  No other event of the page is interleaved with a running handler.
\<close>

datatype json =
    JUndefined
  | JNull
  | JBool bool
  | JNum rat
  | JStr string
  | JArr "json list"
  | JObj "(string \<times> json) list"

text \<open>What \<open>if (v)\<close>, \<open>v || w\<close>, \<open>!v\<close> and \<open>v ? a : b\<close> test.\<close>

fun truthy :: "json \<Rightarrow> bool" where
  "truthy JUndefined = False"
| "truthy JNull = False"
| "truthy (JBool b) = b"
| "truthy (JNum r) = (r \<noteq> 0)"
| "truthy (JStr s) = (s \<noteq> [])"
| "truthy (JArr _) = True"
| "truthy (JObj _) = True"

text \<open>\<open>a || b\<close>: the left operand when it is truthy, the right one otherwise.\<close>

definition js_or :: "json \<Rightarrow> json \<Rightarrow> json" where
  "js_or a b = (if truthy a then a else b)"

text \<open>
  What a \<open>try\<close> block of the pages can catch: a rejected axios call, carrying the body
  of the response when the server answered (\<open>error.response.data\<close>) and nothing when
  no response came (\<open>error.response\<close> is undefined); or the TypeError of a member
  access on \<open>undefined\<close> or \<open>null\<close>, which has no \<open>response\<close> property.
\<close>

datatype js_error = AxiosError "json option" | TypeError

text \<open>
  \<open>v.k\<close> for the property names the pages read (\<open>result\<close>, \<open>message\<close>,
  \<open>detail\<close>, \<open>is_running\<close>, \<open>whmcs_url\<close>, ...): none of them is a built-in
  property of a string, number, boolean or array, so only an object can hold one.
\<close>

fun get_prop :: "json \<Rightarrow> string \<Rightarrow> js_error + json" where
  "get_prop JUndefined k = Inl TypeError"
| "get_prop JNull k = Inl TypeError"
| "get_prop (JObj kvs) k = Inr (case map_of kvs k of None \<Rightarrow> JUndefined | Some v \<Rightarrow> v)"
| "get_prop _ k = Inr JUndefined"

text \<open>\<open>v?.k\<close>: \<open>undefined\<close> instead of a TypeError.\<close>

definition opt_chain :: "json \<Rightarrow> string \<Rightarrow> json" where
  "opt_chain v k = (case get_prop v k of Inl _ \<Rightarrow> JUndefined | Inr w \<Rightarrow> w)"

text \<open>\<open>error.response?.data?.detail\<close> in the \<open>catch\<close> blocks.\<close>

fun error_detail :: "js_error \<Rightarrow> json" where
  "error_detail (AxiosError (Some d)) = opt_chain d ''detail''"
| "error_detail (AxiosError None) = JUndefined"
| "error_detail TypeError = JUndefined"

section \<open>Shared shapes\<close>

text \<open>The banner object \<open>{ type, message }\<close> of \<open>setAlert\<close>.\<close>

record alert =
  type :: string
  message :: json

text \<open>
  A \<open>SyncLogEntry\<close> of \<open>GET /sync/logs\<close>. \<open>errors\<close> may be missing
  (the Logs page guards it with \<open>log.errors &&\<close>).
\<close>

record log_entry =
  entry_id :: string
  sync_type :: string
  status :: string
  timestamp :: string
  entry_message :: string
  invoices_processed :: int
  invoices_created :: int
  clients_created :: int
  payments_synced :: int
  errors :: "string list option"

text \<open>The form object of the Settings page, \<open>credentials\<close>.\<close>

record credentials =
  whmcs_url :: json
  whmcs_identifier :: json
  whmcs_secret :: json
  freeagent_client_id :: json
  freeagent_client_secret :: json

text \<open>The HTTP calls a page issues, in the order it issues them.\<close>

datatype request =
    GetSyncStatus
  | GetSyncLogs nat
  | PostSyncManual
  | GetCredentials
  | PostCredentials credentials
  | GetAuthorize

text \<open>
  Every page keeps a \<open>loading\<close> flag; Dashboard and Settings also keep an \<open>alert\<close>.
  The \<open>useState\<close> cells of a page are the fields of its record.
\<close>

record page =
  loading :: bool

record alert_page = page +
  alert :: "alert option"

section \<open>Dashboard\<close>

record dashboard = alert_page +
  syncStatus :: json
  recentLogs :: "log_entry list"
  syncing :: bool

definition Dashboard_init :: dashboard where
  "Dashboard_init =
     \<lparr>loading = True, alert = None, syncStatus = JNull, recentLogs = [], syncing = False\<rparr>"

text \<open>
  \<open>fetchData\<close>: both GET calls are issued, then \<open>Promise.all\<close> is awaited. The two
  arguments are how the calls end (\<open>Inl\<close>: rejected, \<open>Inr\<close>: the body). The function
  catches every error itself, so it never rejects.
\<close>

definition fetchData ::
  "js_error + json \<Rightarrow> js_error + log_entry list \<Rightarrow> dashboard \<times> request list
     \<Rightarrow> dashboard \<times> request list" where
  "fetchData statusRes logsRes s =
     (let st = fst s; reqs = snd s @ [GetSyncStatus, GetSyncLogs 5] in
      case statusRes of
        Inl e \<Rightarrow> (st\<lparr>loading := False\<rparr>, reqs)
      | Inr status_data \<Rightarrow>
          (case logsRes of
             Inl e \<Rightarrow> (st\<lparr>loading := False\<rparr>, reqs)
           | Inr logs_data \<Rightarrow>
               (st\<lparr>syncStatus := status_data, recentLogs := logs_data, loading := False\<rparr>,
                reqs)))"

text \<open>
  \<open>handleManualSync\<close>. \<open>postRes\<close> is how \<open>POST /sync/manual\<close> ends, the other two
  how the calls of the refresh end, when it runs. The \<open>catch\<close> block is
  \<open>manualSync_catch\<close>; it is reached by a rejected POST and by the TypeError of
  \<open>response.data.result.message\<close> when \<open>data\<close> or \<open>result\<close> is undefined or null.
  \<open>finally\<close> clears \<open>syncing\<close> on every path.
\<close>

definition manualSync_catch :: "js_error \<Rightarrow> dashboard \<Rightarrow> dashboard" where
  "manualSync_catch e st =
     st\<lparr>alert := Some \<lparr>type = ''error'',
            message = js_or (error_detail e)
              (JStr ''Sync failed. Please check your settings and try again.'')\<rparr>,
        syncing := False\<rparr>"

definition handleManualSync ::
  "js_error + json \<Rightarrow> js_error + json \<Rightarrow> js_error + log_entry list
     \<Rightarrow> dashboard \<times> request list \<Rightarrow> dashboard \<times> request list" where
  "handleManualSync postRes statusRes logsRes s =
     (let st = (fst s)\<lparr>syncing := True, alert := None\<rparr>;
          reqs = snd s @ [PostSyncManual] in
      case postRes of
        Inl e \<Rightarrow> (manualSync_catch e st, reqs)
      | Inr data \<Rightarrow>
          (case get_prop data ''result'' of
             Inl e \<Rightarrow> (manualSync_catch e st, reqs)
           | Inr result \<Rightarrow>
               (case get_prop result ''message'' of
                  Inl e \<Rightarrow> (manualSync_catch e st, reqs)
                | Inr msg \<Rightarrow>
                    (let st' = st\<lparr>alert := Some \<lparr>type = ''success'',
                                 message = js_or msg (JStr ''Sync completed successfully!'')\<rparr>\<rparr>;
                         r = fetchData statusRes logsRes (st', reqs)
                     in ((fst r)\<lparr>syncing := False\<rparr>, snd r)))))"

text \<open>
  What the Dashboard renders, as far as the banner and the manual-sync button go: nothing of
  either while \<open>loading\<close>; afterwards the alert, if any, and the button, whose
  \<open>disabled\<close> attribute and label both test \<open>syncing || syncStatus?.is_running\<close>.
\<close>

record dashboard_view =
  shown_alert :: "alert option"
  manual_sync_disabled :: bool
  manual_sync_label :: string

definition sync_in_flight :: "dashboard \<Rightarrow> bool" where
  "sync_in_flight st =
     truthy (js_or (JBool (syncing st)) (opt_chain (syncStatus st) ''is_running''))"

definition Dashboard_render :: "dashboard \<Rightarrow> dashboard_view option" where
  "Dashboard_render st =
     (if loading st then None
      else Some \<lparr>shown_alert = alert st,
                 manual_sync_disabled = sync_in_flight st,
                 manual_sync_label =
                   (if sync_in_flight st then ''Syncing...'' else ''Start Manual Sync'')\<rparr>)"

text \<open>The banner the Dashboard shows.\<close>

definition Dashboard_banner :: "dashboard \<Rightarrow> alert option" where
  "Dashboard_banner st =
     (case Dashboard_render st of None \<Rightarrow> None | Some v \<Rightarrow> shown_alert v)"

section \<open>Settings\<close>

text \<open>
  The browser's address, kept parsed: the path and the query parameters in order.
  \<open>'/settings'\<close> is the path \<open>/settings\<close> with no query string.
\<close>

record location =
  pathname :: string
  search :: "(string \<times> string) list"

text \<open>\<open>searchParams.get(k)\<close>: the first value of \<open>k\<close>, or \<open>null\<close>.\<close>

definition searchParams_get :: "(string \<times> string) list \<Rightarrow> string \<Rightarrow> json" where
  "searchParams_get ps k = (case map_of ps k of None \<Rightarrow> JNull | Some v \<Rightarrow> JStr v)"

text \<open>
  \<open>address\<close> is what \<open>window.history.replaceState\<close> writes; \<open>redirect\<close> is the value
  assigned to \<open>window.location.href\<close>, if any (the page is left for it).
\<close>

record settings = alert_page +
  credentials :: credentials
  saving :: bool
  connecting :: bool
  disconnecting :: bool
  isConnected :: json
  address :: location
  redirect :: "json option"

definition Settings_init :: "location \<Rightarrow> settings" where
  "Settings_init loc =
     \<lparr>loading = True, alert = None,
      credentials = \<lparr>whmcs_url = JStr [], whmcs_identifier = JStr [], whmcs_secret = JStr [],
                     freeagent_client_id = JStr [], freeagent_client_secret = JStr []\<rparr>,
      saving = False, connecting = False, disconnecting = False,
      isConnected = JBool False, address = loc, redirect = None\<rparr>"

text \<open>
  \<open>fetchCredentials\<close> after its \<open>await\<close>: \<open>res\<close> is how \<open>GET /settings/credentials\<close>
  ended. The form and \<open>isConnected\<close> are written only under \<open>if (response.data)\<close>;
  \<open>loading\<close> is cleared on every path.
\<close>

definition fetchCredentials_resolved :: "js_error + json \<Rightarrow> settings \<Rightarrow> settings" where
  "fetchCredentials_resolved res st =
     (case res of
        Inl e \<Rightarrow> st\<lparr>loading := False\<rparr>
      | Inr data \<Rightarrow>
          if truthy data then
            (case get_prop data ''whmcs_url'' of
               Inl e \<Rightarrow> st\<lparr>loading := False\<rparr>
             | Inr url \<Rightarrow>
                 (case get_prop data ''freeagent_client_id'' of
                    Inl e \<Rightarrow> st\<lparr>loading := False\<rparr>
                  | Inr client_id \<Rightarrow>
                      (let st' = st\<lparr>credentials :=
                                 \<lparr>whmcs_url = js_or url (JStr []),
                                  whmcs_identifier = JStr [],
                                  whmcs_secret = JStr [],
                                  freeagent_client_id = js_or client_id (JStr []),
                                  freeagent_client_secret = JStr []\<rparr>\<rparr>
                       in case get_prop data ''is_connected'' of
                            Inl e \<Rightarrow> st'\<lparr>loading := False\<rparr>
                          | Inr c \<Rightarrow>
                              st'\<lparr>isConnected := js_or c (JBool False), loading := False\<rparr>)))
          else st\<lparr>loading := False\<rparr>)"

text \<open>The whole of \<open>fetchCredentials\<close>, as \<open>handleSubmit\<close> awaits it.\<close>

definition fetchCredentials ::
  "js_error + json \<Rightarrow> settings \<times> request list \<Rightarrow> settings \<times> request list" where
  "fetchCredentials res s = (fetchCredentials_resolved res (fst s), snd s @ [GetCredentials])"

text \<open>
  The OAuth part of the effect: the \<open>oauth\<close> parameter is read once; on \<open>success\<close> or
  \<open>error\<close> a banner is set and the address replaced by \<open>/settings\<close>.
\<close>

definition oauth_callback :: "(string \<times> string) list \<Rightarrow> settings \<Rightarrow> settings" where
  "oauth_callback searchParams st =
     (let oauthStatus = searchParams_get searchParams ''oauth'' in
      if oauthStatus = JStr ''success'' then
        st\<lparr>alert := Some \<lparr>type = ''success'',
                           message = JStr ''Successfully connected to FreeAgent!''\<rparr>,
           address := \<lparr>pathname = ''/settings'', search = []\<rparr>\<rparr>
      else if oauthStatus = JStr ''error'' then
        (let errorMsg = js_or (searchParams_get searchParams ''message'')
                              (JStr ''Failed to connect to FreeAgent'')
         in st\<lparr>alert := Some \<lparr>type = ''error'', message = errorMsg\<rparr>,
               address := \<lparr>pathname = ''/settings'', search = []\<rparr>\<rparr>)
      else st)"

text \<open>
  The effect of the Settings page, run after the first render with the query parameters of
  the address: \<open>fetchCredentials()\<close> issues its request, the OAuth part runs, and the
  request's continuation runs when it ends.
\<close>

definition Settings_effect ::
  "js_error + json \<Rightarrow> settings \<times> request list \<Rightarrow> settings \<times> request list" where
  "Settings_effect res s =
     (let searchParams = search (address (fst s));
          reqs = snd s @ [GetCredentials];
          st = oauth_callback searchParams (fst s)
      in (fetchCredentials_resolved res st, reqs))"

text \<open>Visiting the page at an address: the initial state, then the effect.\<close>

definition Settings_visit :: "location \<Rightarrow> js_error + json \<Rightarrow> settings \<times> request list" where
  "Settings_visit loc res = Settings_effect res (Settings_init loc, [])"

text \<open>
  \<open>handleChange\<close>: the input named \<open>name\<close> now holds \<open>v\<close>. The form has exactly the
  five inputs below.
\<close>

definition handleChange :: "string \<Rightarrow> string \<Rightarrow> settings \<Rightarrow> settings" where
  "handleChange name v st =
     (let c = credentials st in
      st\<lparr>credentials :=
          (if name = ''whmcs_url'' then c\<lparr>whmcs_url := JStr v\<rparr>
           else if name = ''whmcs_identifier'' then c\<lparr>whmcs_identifier := JStr v\<rparr>
           else if name = ''whmcs_secret'' then c\<lparr>whmcs_secret := JStr v\<rparr>
           else if name = ''freeagent_client_id'' then c\<lparr>freeagent_client_id := JStr v\<rparr>
           else if name = ''freeagent_client_secret'' then c\<lparr>freeagent_client_secret := JStr v\<rparr>
           else c)\<rparr>)"

text \<open>\<open>handleSubmit\<close>: the form is posted; on success the credentials are fetched again.\<close>

definition handleSubmit ::
  "js_error + json \<Rightarrow> js_error + json \<Rightarrow> settings \<times> request list
     \<Rightarrow> settings \<times> request list" where
  "handleSubmit postRes getRes s =
     (let st = (fst s)\<lparr>saving := True, alert := None\<rparr>;
          reqs = snd s @ [PostCredentials (credentials (fst s))] in
      case postRes of
        Inl e \<Rightarrow>
          (st\<lparr>alert := Some \<lparr>type = ''error'',
                 message = js_or (error_detail e) (JStr ''Failed to save credentials'')\<rparr>,
              saving := False\<rparr>, reqs)
      | Inr _ \<Rightarrow>
          (let st' = st\<lparr>alert := Some \<lparr>type = ''success'',
                            message = JStr ''Credentials saved successfully!''\<rparr>\<rparr>;
               r = fetchCredentials getRes (st', reqs)
           in ((fst r)\<lparr>saving := False\<rparr>, snd r)))"

text \<open>
  \<open>handleConnectFreeAgent\<close>: the authorize endpoint is asked for a URL and the page
  navigates to it; \<open>connecting\<close> is cleared only when that fails.
\<close>

definition connect_catch :: "js_error \<Rightarrow> settings \<Rightarrow> settings" where
  "connect_catch e st =
     st\<lparr>alert := Some \<lparr>type = ''error'',
            message = js_or (error_detail e)
              (JStr ''Failed to initiate FreeAgent connection'')\<rparr>,
        connecting := False\<rparr>"

definition handleConnectFreeAgent ::
  "js_error + json \<Rightarrow> settings \<times> request list \<Rightarrow> settings \<times> request list" where
  "handleConnectFreeAgent authRes s =
     (let st = (fst s)\<lparr>connecting := True, alert := None\<rparr>;
          reqs = snd s @ [GetAuthorize] in
      case authRes of
        Inl e \<Rightarrow> (connect_catch e st, reqs)
      | Inr data \<Rightarrow>
          (case get_prop data ''authorization_url'' of
             Inl e \<Rightarrow> (connect_catch e st, reqs)
           | Inr u \<Rightarrow> (st\<lparr>redirect := Some u\<rparr>, reqs)))"

text \<open>
  What the Settings page renders, as far as the banner and the connection buttons go:
  nothing while \<open>loading\<close>; afterwards the alert, and either the disconnect button
  (when \<open>isConnected\<close>) or the connect button, each with its \<open>disabled\<close> attribute.
\<close>

record settings_view =
  settings_alert :: "alert option"
  connect_btn_disabled :: "bool option"
  disconnect_btn_disabled :: "bool option"

definition Settings_render :: "settings \<Rightarrow> settings_view option" where
  "Settings_render st =
     (if loading st then None
      else Some \<lparr>settings_alert = alert st,
                 connect_btn_disabled =
                   (if truthy (isConnected st) then None
                    else Some (connecting st \<or> \<not> truthy (freeagent_client_id (credentials st)))),
                 disconnect_btn_disabled =
                   (if truthy (isConnected st) then Some (disconnecting st) else None)\<rparr>)"

text \<open>The banner the Settings page shows.\<close>

definition Settings_banner :: "settings \<Rightarrow> alert option" where
  "Settings_banner st =
     (case Settings_render st of None \<Rightarrow> None | Some v \<Rightarrow> settings_alert v)"

text \<open>
  A click on the connect button: the browser calls \<open>onClick\<close> only when the button is on
  the page and not disabled.
\<close>

definition click_connect ::
  "js_error + json \<Rightarrow> settings \<times> request list \<Rightarrow> settings \<times> request list" where
  "click_connect authRes s =
     (case Settings_render (fst s) of
        None \<Rightarrow> s
      | Some v \<Rightarrow>
          (case connect_btn_disabled v of
             Some False \<Rightarrow> handleConnectFreeAgent authRes s
           | _ \<Rightarrow> s))"

section \<open>Logs\<close>

record logs_page = page +
  logs :: "log_entry list"

definition Logs_init :: logs_page where
  "Logs_init = \<lparr>loading = True, logs = []\<rparr>"

text \<open>\<open>fetchLogs\<close>: the list is stored as it is returned; a failure keeps the old one.\<close>

definition fetchLogs ::
  "js_error + log_entry list \<Rightarrow> logs_page \<times> request list \<Rightarrow> logs_page \<times> request list" where
  "fetchLogs res s =
     (case res of
        Inl e \<Rightarrow> ((fst s)\<lparr>loading := False\<rparr>, snd s @ [GetSyncLogs 100])
      | Inr data \<Rightarrow> ((fst s)\<lparr>logs := data, loading := False\<rparr>, snd s @ [GetSyncLogs 100]))"

definition getStatusClass :: "string \<Rightarrow> string" where
  "getStatusClass s =
     (if s = ''success'' then ''status-success''
      else if s = ''error'' then ''status-error''
      else if s = ''running'' then ''status-running''
      else ''status-warning'')"

text \<open>
  One \<open>log-entry\<close> element: its React key and the texts it shows. The stats line is there
  for a successful sync, the error list when \<open>errors\<close> is present and not empty.
  \<open>formatDate\<close> goes through the browser's \<open>Date\<close> and locale, so it is a parameter.
\<close>

record entry_view =
  key :: string
  type_label :: string
  status_class :: string
  status_text :: string
  time_text :: string
  message_text :: string
  stats :: "(int \<times> int \<times> int) option"
  error_items :: "string list option"

definition render_entry :: "(string \<Rightarrow> string) \<Rightarrow> log_entry \<Rightarrow> entry_view" where
  "render_entry formatDate entry =
     \<lparr>key = entry_id entry,
      type_label = sync_type entry @ '' SYNC'',
      status_class = getStatusClass (status entry),
      status_text = status entry,
      time_text = formatDate (timestamp entry),
      message_text = entry_message entry,
      stats = (if status entry = ''success''
               then Some (invoices_processed entry, invoices_created entry, clients_created entry)
               else None),
      error_items = (case errors entry of
                       None \<Rightarrow> None
                     | Some es \<Rightarrow> if length es > 0 then Some es else None)\<rparr>"

datatype logs_view = Logs_loading | Logs_empty_state | Logs_list "entry_view list"

definition Logs_render :: "(string \<Rightarrow> string) \<Rightarrow> logs_page \<Rightarrow> logs_view" where
  "Logs_render formatDate st =
     (if loading st then Logs_loading
      else if length (logs st) = 0 then Logs_empty_state
      else Logs_list (map (render_entry formatDate) (logs st)))"

section \<open>Helper lemmas\<close>

lemma get_prop_truthy: "truthy v \<Longrightarrow> get_prop v k = Inr (opt_chain v k)"
  by (cases v) (simp_all add: opt_chain_def)

lemma get_prop_defined:
  assumes "v \<noteq> JUndefined" and "v \<noteq> JNull"
  obtains w where "get_prop v k = Inr w"
  using assms by (cases v) simp_all

lemma fetchData_loading [simp]: "loading (fst (fetchData a b s)) = False"
  by (simp add: fetchData_def Let_def split: sum.splits)

lemma fetchData_alert [simp]: "alert (fst (fetchData a b s)) = alert (fst s)"
  by (simp add: fetchData_def Let_def split: sum.splits)

lemma fetchData_requests [simp]:
  "snd (fetchData a b s) = snd s @ [GetSyncStatus, GetSyncLogs 5]"
  by (simp add: fetchData_def Let_def split: sum.splits)

lemma manualSync_success_alert:
  assumes "get_prop data ''result'' = Inr result" and "get_prop result ''message'' = Inr m"
  shows "Dashboard_banner (fst (handleManualSync (Inr data) statusRes logsRes (st, reqs)))
           = Some \<lparr>type = ''success'',
                   message = js_or m (JStr ''Sync completed successfully!'')\<rparr>"
  using assms
  by (simp add: handleManualSync_def Let_def Dashboard_banner_def Dashboard_render_def)

lemma manualSync_error_alert:
  assumes "\<not> loading st"
  shows "Dashboard_banner (fst (handleManualSync (Inl e) statusRes logsRes (st, reqs)))
           = Some \<lparr>type = ''error'',
                   message = js_or (error_detail e)
                     (JStr ''Sync failed. Please check your settings and try again.'')\<rparr>"
  using assms
  by (simp add: handleManualSync_def Let_def Dashboard_banner_def Dashboard_render_def
      manualSync_catch_def)

lemma fetchCredentials_resolved_truthy:
  assumes "truthy data"
  shows "fetchCredentials_resolved (Inr data) st =
           st\<lparr>credentials :=
                \<lparr>whmcs_url = js_or (opt_chain data ''whmcs_url'') (JStr []),
                 whmcs_identifier = JStr [],
                 whmcs_secret = JStr [],
                 freeagent_client_id = js_or (opt_chain data ''freeagent_client_id'') (JStr []),
                 freeagent_client_secret = JStr []\<rparr>,
              isConnected := js_or (opt_chain data ''is_connected'') (JBool False),
              loading := False\<rparr>"
  using assms by (simp add: fetchCredentials_resolved_def get_prop_truthy Let_def)

lemma fetchCredentials_resolved_cases:
  "fetchCredentials_resolved res st = st\<lparr>loading := False\<rparr>
   \<or> (\<exists>data. res = Inr data \<and> truthy data)"
  by (cases res) (auto simp: fetchCredentials_resolved_def)

lemma fetchCredentials_resolved_alert [simp]:
  "alert (fetchCredentials_resolved res st) = alert st"
  using fetchCredentials_resolved_cases [of res st]
  by (auto simp: fetchCredentials_resolved_truthy)

lemma fetchCredentials_resolved_address [simp]:
  "address (fetchCredentials_resolved res st) = address st"
  using fetchCredentials_resolved_cases [of res st]
  by (auto simp: fetchCredentials_resolved_truthy)

lemma fetchCredentials_resolved_loading [simp]:
  "loading (fetchCredentials_resolved res st) = False"
  using fetchCredentials_resolved_cases [of res st]
  by (auto simp: fetchCredentials_resolved_truthy)

section \<open>The manual sync of the Dashboard\<close>

text \<open>
  The refresh of \<open>handleManualSync\<close> stands inside the \<open>try\<close> block, after the POST.
  When \<open>POST /sync/manual\<close> is rejected the handler goes to \<open>catch\<close>, and the POST is
  the only request it issues: no status or logs request follows.
\<close>

theorem manualSync_rejected_no_refresh:
  "snd (handleManualSync (Inl (AxiosError None))
          (Inr (JObj [(''is_running'', JBool False)])) (Inr [])
          (Dashboard_init\<lparr>loading := False\<rparr>, []))
     = [PostSyncManual]"
  by (simp add: handleManualSync_def Let_def)

text \<open>
  C1, amended: after a manual-sync trigger whose \<open>POST /sync/manual\<close> request succeeds with
  a body that has a \<open>result\<close> (neither undefined nor null), the view refreshes sync
  status and recent logs: the status and logs requests are issued after the POST. When the
  request fails, the POST is the only request of the handler.
\<close>

theorem manualSync_refresh_on_success:
  "(postRes = Inr data \<and> get_prop data ''result'' = Inr result
      \<and> result \<noteq> JUndefined \<and> result \<noteq> JNull
    \<longrightarrow> snd (handleManualSync postRes statusRes logsRes (st, reqs))
          = reqs @ [PostSyncManual, GetSyncStatus, GetSyncLogs 5])
   \<and> (isl postRes
    \<longrightarrow> snd (handleManualSync postRes statusRes logsRes (st, reqs))
          = reqs @ [PostSyncManual])"
proof (intro conjI impI)
  assume ok: "postRes = Inr data \<and> get_prop data ''result'' = Inr result
      \<and> result \<noteq> JUndefined \<and> result \<noteq> JNull"
  then obtain m where "get_prop result ''message'' = Inr m"
    using get_prop_defined [of result] by blast
  with ok show "snd (handleManualSync postRes statusRes logsRes (st, reqs))
      = reqs @ [PostSyncManual, GetSyncStatus, GetSyncLogs 5]"
    by (simp add: handleManualSync_def Let_def)
next
  assume "isl postRes"
  then obtain e where "postRes = Inl e"
    by (cases postRes) simp_all
  then show "snd (handleManualSync postRes statusRes logsRes (st, reqs))
      = reqs @ [PostSyncManual]"
    by (simp add: handleManualSync_def Let_def)
qed

theorem manualSync_refresh_on_success_witness:
  "snd (handleManualSync (Inr (JObj [(''result'', JObj [(''message'', JStr ''Done'')])]))
          (Inr (JObj [(''is_running'', JBool False)])) (Inr [])
          (Dashboard_init\<lparr>loading := False\<rparr>, []))
     = [PostSyncManual, GetSyncStatus, GetSyncLogs 5]
   \<and> snd (handleManualSync (Inl TypeError) (Inr JNull) (Inr [])
          (Dashboard_init\<lparr>loading := False\<rparr>, []))
     = [PostSyncManual]"
  using manualSync_refresh_on_success
          [where postRes = "Inr (JObj [(''result'', JObj [(''message'', JStr ''Done'')])])"
             and data = "JObj [(''result'', JObj [(''message'', JStr ''Done'')])]"
             and result = "JObj [(''message'', JStr ''Done'')]"
             and statusRes = "Inr (JObj [(''is_running'', JBool False)])"
             and logsRes = "Inr []"
             and st = "Dashboard_init\<lparr>loading := False\<rparr>" and reqs = "[]"]
        manualSync_refresh_on_success
          [where postRes = "Inl TypeError" and statusRes = "Inr JNull" and logsRes = "Inr []"
             and st = "Dashboard_init\<lparr>loading := False\<rparr>" and reqs = "[]"]
  by simp

text \<open>
  \<open>response.data.result.message || "Sync completed successfully!"\<close> tests the message for
  truthiness. A response whose \<open>message\<close> field is there and is the empty string gets the
  fallback text, not the empty text.
\<close>

theorem manualSync_empty_message_fallback:
  "Dashboard_banner (fst (handleManualSync
       (Inr (JObj [(''result'', JObj [(''message'', JStr [])])]))
       (Inr (JObj [(''is_running'', JBool False)])) (Inr [])
       (Dashboard_init\<lparr>loading := False\<rparr>, [])))
     = Some \<lparr>type = ''success'', message = JStr ''Sync completed successfully!''\<rparr>"
  by (simp add: handleManualSync_def Let_def Dashboard_banner_def Dashboard_render_def
      js_or_def)

text \<open>
  C2, amended: on a Dashboard that has loaded, a manual-sync call that resolves with a body
  whose \<open>result.message\<close> is a non-empty string \<open>X\<close> shows a success banner with the
  text \<open>X\<close>, and one that rejects with an error body whose \<open>detail\<close> is a non-empty
  string \<open>Y\<close> shows an error banner with the text \<open>Y\<close>. The generic fallback text is
  shown when the message or detail field is absent or is the empty string.
\<close>

theorem manualSync_banner:
  assumes "\<not> loading st"
  shows "(get_prop data ''result'' = Inr result
            \<and> get_prop result ''message'' = Inr (JStr X) \<and> X \<noteq> []
          \<longrightarrow> Dashboard_banner (fst (handleManualSync (Inr data) statusRes logsRes (st, reqs)))
                = Some \<lparr>type = ''success'', message = JStr X\<rparr>)
       \<and> (get_prop data ''result'' = Inr result
            \<and> (get_prop result ''message'' = Inr JUndefined
               \<or> get_prop result ''message'' = Inr (JStr []))
          \<longrightarrow> Dashboard_banner (fst (handleManualSync (Inr data) statusRes logsRes (st, reqs)))
                = Some \<lparr>type = ''success'',
                        message = JStr ''Sync completed successfully!''\<rparr>)
       \<and> (get_prop body ''detail'' = Inr (JStr Y) \<and> Y \<noteq> []
          \<longrightarrow> Dashboard_banner (fst (handleManualSync (Inl (AxiosError (Some body)))
                   statusRes logsRes (st, reqs)))
                = Some \<lparr>type = ''error'', message = JStr Y\<rparr>)
       \<and> (get_prop body ''detail'' = Inr JUndefined
            \<or> get_prop body ''detail'' = Inr (JStr [])
          \<longrightarrow> Dashboard_banner (fst (handleManualSync (Inl (AxiosError (Some body)))
                   statusRes logsRes (st, reqs)))
                = Some \<lparr>type = ''error'',
                        message =
                          JStr ''Sync failed. Please check your settings and try again.''\<rparr>)"
  using assms
  by (auto simp: manualSync_success_alert manualSync_error_alert js_or_def opt_chain_def)

theorem manualSync_banner_witness:
  "Dashboard_banner (fst (handleManualSync
       (Inr (JObj [(''result'', JObj [(''message'', JStr ''Imported 3 invoices'')])]))
       (Inr (JObj [(''is_running'', JBool False)])) (Inr [])
       (Dashboard_init\<lparr>loading := False\<rparr>, [])))
     = Some \<lparr>type = ''success'', message = JStr ''Imported 3 invoices''\<rparr>
   \<and> Dashboard_banner (fst (handleManualSync
       (Inl (AxiosError (Some (JObj [(''detail'', JStr ''WHMCS unreachable'')]))))
       (Inr (JObj [(''is_running'', JBool False)])) (Inr [])
       (Dashboard_init\<lparr>loading := False\<rparr>, [])))
     = Some \<lparr>type = ''error'', message = JStr ''WHMCS unreachable''\<rparr>"
  using manualSync_banner
          [where st = "Dashboard_init\<lparr>loading := False\<rparr>"
             and data = "JObj [(''result'', JObj [(''message'', JStr ''Imported 3 invoices'')])]"
             and result = "JObj [(''message'', JStr ''Imported 3 invoices'')]"
             and X = "''Imported 3 invoices''"
             and body = "JObj [(''detail'', JStr ''WHMCS unreachable'')]"
             and Y = "''WHMCS unreachable''"
             and statusRes = "Inr (JObj [(''is_running'', JBool False)])"
             and logsRes = "Inr []" and reqs = "[]"]
  by simp

text \<open>
  C4: the status and recent-logs requests of the Dashboard's fetch cycle are both issued and
  awaited together; when either of the two rejects, \<open>syncStatus\<close> and
  \<open>recentLogs\<close> keep the values they had before the cycle.
\<close>

theorem fetchData_failure_keeps_data:
  assumes "isl statusRes \<or> isl logsRes"
  shows "syncStatus (fst (fetchData statusRes logsRes (st, reqs))) = syncStatus st
       \<and> recentLogs (fst (fetchData statusRes logsRes (st, reqs))) = recentLogs st
       \<and> snd (fetchData statusRes logsRes (st, reqs)) = reqs @ [GetSyncStatus, GetSyncLogs 5]"
proof -
  from assms consider (status) e where "statusRes = Inl e" | (logs) e where "logsRes = Inl e"
    by (cases statusRes; cases logsRes) auto
  then show ?thesis
  proof cases
    case status
    then show ?thesis by (simp add: fetchData_def Let_def)
  next
    case logs
    then show ?thesis by (cases statusRes) (simp_all add: fetchData_def Let_def)
  qed
qed

theorem fetchData_failure_keeps_data_witness:
  "syncStatus (fst (fetchData (Inr (JObj [(''is_running'', JBool True)])) (Inl (AxiosError None))
       (Dashboard_init\<lparr>loading := False,
                        syncStatus := JObj [(''is_running'', JBool False)]\<rparr>, [])))
     = JObj [(''is_running'', JBool False)]
   \<and> recentLogs (fst (fetchData (Inr (JObj [(''is_running'', JBool True)]))
       (Inl (AxiosError None))
       (Dashboard_init\<lparr>loading := False,
                        syncStatus := JObj [(''is_running'', JBool False)]\<rparr>, [])))
     = []
   \<and> snd (fetchData (Inr (JObj [(''is_running'', JBool True)])) (Inl (AxiosError None))
       (Dashboard_init\<lparr>loading := False,
                        syncStatus := JObj [(''is_running'', JBool False)]\<rparr>, []))
     = [GetSyncStatus, GetSyncLogs 5]"
  using fetchData_failure_keeps_data
          [where statusRes = "Inr (JObj [(''is_running'', JBool True)])"
             and logsRes = "Inl (AxiosError None)"
             and st = "Dashboard_init\<lparr>loading := False,
                         syncStatus := JObj [(''is_running'', JBool False)]\<rparr>"
             and reqs = "[]"]
  by (simp add: Dashboard_init_def)

text \<open>
  C7: in every Dashboard state whose \<open>syncStatus.is_running\<close> is \<open>true\<close>, the
  manual-sync button is disabled whatever the local \<open>syncing\<close> flag is (while the page
  is still loading there is no button at all).
\<close>

theorem manual_sync_disabled_while_running:
  assumes "opt_chain (syncStatus st) ''is_running'' = JBool True"
  shows "map_option manual_sync_disabled (Dashboard_render (st\<lparr>syncing := b\<rparr>))
           = (if loading st then None else Some True)"
  using assms by (simp add: Dashboard_render_def sync_in_flight_def js_or_def)

theorem manual_sync_disabled_while_running_witness:
  "map_option manual_sync_disabled
     (Dashboard_render (Dashboard_init\<lparr>loading := False,
          syncStatus := JObj [(''last_sync_status'', JStr ''running''),
                              (''is_running'', JBool True)]\<rparr>\<lparr>syncing := False\<rparr>))
     = Some True"
  using manual_sync_disabled_while_running
          [where st = "Dashboard_init\<lparr>loading := False,
                         syncStatus := JObj [(''last_sync_status'', JStr ''running''),
                                             (''is_running'', JBool True)]\<rparr>"
             and b = False]
  by (simp add: opt_chain_def)

section \<open>Loading the credentials in Settings\<close>

text \<open>
  \<open>fetchCredentials\<close> writes the form only under \<open>if (response.data)\<close>. A user fills
  the five inputs and saves; the POST succeeds and the credentials are fetched again; the
  GET answers with the body \<open>null\<close>. Both secrets stay in the form as typed.
\<close>

theorem fetchCredentials_null_keeps_secrets:
  "whmcs_secret (credentials (fst (handleSubmit (Inr (JObj [])) (Inr JNull)
      ((handleChange ''freeagent_client_secret'' ''fa-secret''
         (handleChange ''freeagent_client_id'' ''fa-id''
         (handleChange ''whmcs_secret'' ''s3cret''
         (handleChange ''whmcs_identifier'' ''api-id-1''
         (handleChange ''whmcs_url'' ''https://billing.example.com''
         (fst (Settings_visit \<lparr>pathname = ''/settings'', search = []\<rparr>
                 (Inr (JObj []))))))))), [GetCredentials]))))
     = JStr ''s3cret''
   \<and> freeagent_client_secret (credentials (fst (handleSubmit (Inr (JObj [])) (Inr JNull)
      ((handleChange ''freeagent_client_secret'' ''fa-secret''
         (handleChange ''freeagent_client_id'' ''fa-id''
         (handleChange ''whmcs_secret'' ''s3cret''
         (handleChange ''whmcs_identifier'' ''api-id-1''
         (handleChange ''whmcs_url'' ''https://billing.example.com''
         (fst (Settings_visit \<lparr>pathname = ''/settings'', search = []\<rparr>
                 (Inr (JObj []))))))))), [GetCredentials]))))
     = JStr ''fa-secret''"
  by (simp add: handleSubmit_def fetchCredentials_def fetchCredentials_resolved_def
      handleChange_def Let_def)

text \<open>
  C3, amended: for every response to \<open>GET /settings/credentials\<close> whose body is truthy
  (an object, as the endpoint returns), whatever values it holds, the form state after
  loading has \<open>whmcs_secret = ""\<close> and \<open>freeagent_client_secret = ""\<close>. A response
  with a falsy body (\<open>null\<close>, empty) or a failed request leaves the form as it was, so the
  secrets are blank after it when they were blank before it, as on the first load.
\<close>

theorem fetchCredentials_blanks_secrets:
  assumes "(\<exists>data. res = Inr data \<and> truthy data)
         \<or> (whmcs_secret (credentials st) = JStr []
            \<and> freeagent_client_secret (credentials st) = JStr [])"
  shows "whmcs_secret (credentials (fst (fetchCredentials res (st, reqs)))) = JStr []
       \<and> freeagent_client_secret (credentials (fst (fetchCredentials res (st, reqs)))) = JStr []"
proof (cases "\<exists>data. res = Inr data \<and> truthy data")
  case True
  then show ?thesis
    by (auto simp: fetchCredentials_def fetchCredentials_resolved_truthy)
next
  case False
  then have "fetchCredentials_resolved res st = st\<lparr>loading := False\<rparr>"
    using fetchCredentials_resolved_cases [of res st] by blast
  with assms False show ?thesis
    by (simp add: fetchCredentials_def)
qed

theorem fetchCredentials_blanks_secrets_witness:
  "whmcs_secret (credentials (fst (fetchCredentials
      (Inr (JObj [(''whmcs_url'', JStr ''https://billing.example.com''),
                  (''whmcs_secret'', JStr ''leaked''),
                  (''freeagent_client_secret'', JStr ''leaked too'')]))
      ((handleChange ''freeagent_client_secret'' ''fa-secret''
         (handleChange ''freeagent_client_id'' ''fa-id''
         (handleChange ''whmcs_secret'' ''s3cret''
         (handleChange ''whmcs_identifier'' ''api-id-1''
         (handleChange ''whmcs_url'' ''https://billing.example.com''
         (fst (Settings_visit \<lparr>pathname = ''/settings'', search = []\<rparr>
                 (Inr (JObj []))))))))), [])))) = JStr []
   \<and> freeagent_client_secret (credentials (fst (fetchCredentials
      (Inr (JObj [(''whmcs_url'', JStr ''https://billing.example.com''),
                  (''whmcs_secret'', JStr ''leaked''),
                  (''freeagent_client_secret'', JStr ''leaked too'')]))
      ((handleChange ''freeagent_client_secret'' ''fa-secret''
         (handleChange ''freeagent_client_id'' ''fa-id''
         (handleChange ''whmcs_secret'' ''s3cret''
         (handleChange ''whmcs_identifier'' ''api-id-1''
         (handleChange ''whmcs_url'' ''https://billing.example.com''
         (fst (Settings_visit \<lparr>pathname = ''/settings'', search = []\<rparr>
                 (Inr (JObj []))))))))), [])))) = JStr []"
  using fetchCredentials_blanks_secrets
    [where res = "Inr (JObj [(''whmcs_url'', JStr ''https://billing.example.com''),
                  (''whmcs_secret'', JStr ''leaked''),
                  (''freeagent_client_secret'', JStr ''leaked too'')])"
       and st = "(handleChange ''freeagent_client_secret'' ''fa-secret''
         (handleChange ''freeagent_client_id'' ''fa-id''
         (handleChange ''whmcs_secret'' ''s3cret''
         (handleChange ''whmcs_identifier'' ''api-id-1''
         (handleChange ''whmcs_url'' ''https://billing.example.com''
         (fst (Settings_visit \<lparr>pathname = ''/settings'', search = []\<rparr>
                 (Inr (JObj [])))))))))" and reqs = "[]"]
  by simp

text \<open>
  The same guard keeps the identifier: after the save above and a GET that answers
  \<open>null\<close>, \<open>whmcs_identifier\<close> is still what the user typed.
\<close>

theorem fetchCredentials_null_keeps_identifier:
  "whmcs_identifier (credentials (fst (handleSubmit (Inr (JObj [])) (Inr JNull)
      ((handleChange ''freeagent_client_secret'' ''fa-secret''
         (handleChange ''freeagent_client_id'' ''fa-id''
         (handleChange ''whmcs_secret'' ''s3cret''
         (handleChange ''whmcs_identifier'' ''api-id-1''
         (handleChange ''whmcs_url'' ''https://billing.example.com''
         (fst (Settings_visit \<lparr>pathname = ''/settings'', search = []\<rparr>
                 (Inr (JObj []))))))))), [GetCredentials]))))
     = JStr ''api-id-1''"
  by (simp add: handleSubmit_def fetchCredentials_def fetchCredentials_resolved_def
      handleChange_def Let_def)

text \<open>
  C9, amended: loading credentials with a response whose body is truthy resets
  \<open>whmcs_identifier\<close> to the empty string, also when the body holds a non-empty
  \<open>whmcs_identifier\<close>; only \<open>whmcs_url\<close>, \<open>freeagent_client_id\<close> and
  \<open>is_connected\<close> are taken from the response (each with its \<open>||\<close> default).
\<close>

theorem fetchCredentials_resets_identifier:
  assumes "truthy data"
  shows "credentials (fst (fetchCredentials (Inr data) (st, reqs))) =
           \<lparr>whmcs_url = js_or (opt_chain data ''whmcs_url'') (JStr []),
            whmcs_identifier = JStr [],
            whmcs_secret = JStr [],
            freeagent_client_id = js_or (opt_chain data ''freeagent_client_id'') (JStr []),
            freeagent_client_secret = JStr []\<rparr>
       \<and> isConnected (fst (fetchCredentials (Inr data) (st, reqs))) =
           js_or (opt_chain data ''is_connected'') (JBool False)"
  using assms by (simp add: fetchCredentials_def fetchCredentials_resolved_truthy)

theorem fetchCredentials_resets_identifier_witness:
  "credentials (fst (fetchCredentials
      (Inr (JObj [(''whmcs_url'', JStr ''https://billing.example.com''),
                  (''whmcs_identifier'', JStr ''stored-id''),
                  (''freeagent_client_id'', JStr ''fa-id''),
                  (''is_connected'', JBool True)]))
      ((handleChange ''freeagent_client_secret'' ''fa-secret''
         (handleChange ''freeagent_client_id'' ''fa-id''
         (handleChange ''whmcs_secret'' ''s3cret''
         (handleChange ''whmcs_identifier'' ''api-id-1''
         (handleChange ''whmcs_url'' ''https://billing.example.com''
         (fst (Settings_visit \<lparr>pathname = ''/settings'', search = []\<rparr>
                 (Inr (JObj []))))))))), []))) =
     \<lparr>whmcs_url = JStr ''https://billing.example.com'',
      whmcs_identifier = JStr [],
      whmcs_secret = JStr [],
      freeagent_client_id = JStr ''fa-id'',
      freeagent_client_secret = JStr []\<rparr>
   \<and> isConnected (fst (fetchCredentials
      (Inr (JObj [(''whmcs_url'', JStr ''https://billing.example.com''),
                  (''whmcs_identifier'', JStr ''stored-id''),
                  (''freeagent_client_id'', JStr ''fa-id''),
                  (''is_connected'', JBool True)]))
      ((handleChange ''freeagent_client_secret'' ''fa-secret''
         (handleChange ''freeagent_client_id'' ''fa-id''
         (handleChange ''whmcs_secret'' ''s3cret''
         (handleChange ''whmcs_identifier'' ''api-id-1''
         (handleChange ''whmcs_url'' ''https://billing.example.com''
         (fst (Settings_visit \<lparr>pathname = ''/settings'', search = []\<rparr>
                 (Inr (JObj []))))))))), []))) = JBool True"
  using fetchCredentials_resets_identifier
    [where data = "JObj [(''whmcs_url'', JStr ''https://billing.example.com''),
                  (''whmcs_identifier'', JStr ''stored-id''),
                  (''freeagent_client_id'', JStr ''fa-id''),
                  (''is_connected'', JBool True)]"
       and st = "(handleChange ''freeagent_client_secret'' ''fa-secret''
         (handleChange ''freeagent_client_id'' ''fa-id''
         (handleChange ''whmcs_secret'' ''s3cret''
         (handleChange ''whmcs_identifier'' ''api-id-1''
         (handleChange ''whmcs_url'' ''https://billing.example.com''
         (fst (Settings_visit \<lparr>pathname = ''/settings'', search = []\<rparr>
                 (Inr (JObj [])))))))))" and reqs = "[]"]
  by (simp add: opt_chain_def js_or_def)

section \<open>The OAuth result in the address of Settings\<close>

text \<open>
  C5: visiting \<open>/settings\<close> with the query parameter \<open>oauth=success\<close> shows a success
  banner, and the address is rewritten to exactly \<open>/settings\<close> with no query string;
  visiting that address again (a refresh) shows no banner.
\<close>

theorem oauth_success_banner_and_address:
  assumes "map_of (search loc) ''oauth'' = Some ''success''"
  shows "Settings_banner (fst (Settings_visit loc res))
           = Some \<lparr>type = ''success'',
                   message = JStr ''Successfully connected to FreeAgent!''\<rparr>
       \<and> address (fst (Settings_visit loc res)) = \<lparr>pathname = ''/settings'', search = []\<rparr>
       \<and> Settings_banner (fst (Settings_visit (address (fst (Settings_visit loc res))) res'))
           = None"
proof -
  let ?st = "fst (Settings_visit loc res)"
  from assms have cb: "oauth_callback (search loc) (Settings_init loc) =
      (Settings_init loc)\<lparr>alert := Some \<lparr>type = ''success'',
                                  message = JStr ''Successfully connected to FreeAgent!''\<rparr>,
                          address := \<lparr>pathname = ''/settings'', search = []\<rparr>\<rparr>"
    by (simp add: oauth_callback_def searchParams_get_def)
  have visit: "?st = fetchCredentials_resolved res (oauth_callback (search loc) (Settings_init loc))"
    by (simp add: Settings_visit_def Settings_effect_def Settings_init_def Let_def)
  have banner: "Settings_banner ?st = Some \<lparr>type = ''success'',
                   message = JStr ''Successfully connected to FreeAgent!''\<rparr>"
    unfolding visit cb by (simp add: Settings_banner_def Settings_render_def)
  have addr: "address ?st = \<lparr>pathname = ''/settings'', search = []\<rparr>"
    unfolding visit cb by simp
  have again: "Settings_banner (fst (Settings_visit \<lparr>pathname = ''/settings'', search = []\<rparr> res'))
      = None"
    by (simp add: Settings_visit_def Settings_effect_def Settings_init_def Let_def
        oauth_callback_def searchParams_get_def Settings_banner_def Settings_render_def)
  from banner addr again show ?thesis by simp
qed

theorem oauth_success_banner_and_address_witness:
  "Settings_banner (fst (Settings_visit
       \<lparr>pathname = ''/settings'', search = [(''oauth'', ''success'')]\<rparr> (Inr (JObj []))))
     = Some \<lparr>type = ''success'', message = JStr ''Successfully connected to FreeAgent!''\<rparr>
   \<and> address (fst (Settings_visit
       \<lparr>pathname = ''/settings'', search = [(''oauth'', ''success'')]\<rparr> (Inr (JObj []))))
     = \<lparr>pathname = ''/settings'', search = []\<rparr>
   \<and> Settings_banner (fst (Settings_visit (address (fst (Settings_visit
       \<lparr>pathname = ''/settings'', search = [(''oauth'', ''success'')]\<rparr> (Inr (JObj [])))))
       (Inr (JObj []))))
     = None"
  using oauth_success_banner_and_address
          [where loc = "\<lparr>pathname = ''/settings'', search = [(''oauth'', ''success'')]\<rparr>"
             and res = "Inr (JObj [])" and res' = "Inr (JObj [])"]
  by auto

text \<open>
  C6: visiting \<open>/settings\<close> with \<open>oauth=error\<close> and \<open>message=M\<close> shows an error
  banner whose text contains \<open>M\<close>; when there is no \<open>message\<close> parameter the banner
  shows the generic text.
\<close>

theorem oauth_error_banner:
  assumes "map_of (search loc) ''oauth'' = Some ''error''"
  shows "(map_of (search loc) ''message'' = Some M
          \<longrightarrow> (\<exists>shown. Settings_banner (fst (Settings_visit loc res))
                          = Some \<lparr>type = ''error'', message = JStr shown\<rparr>
                       \<and> sublist M shown))
       \<and> (map_of (search loc) ''message'' = None
          \<longrightarrow> Settings_banner (fst (Settings_visit loc res))
                = Some \<lparr>type = ''error'', message = JStr ''Failed to connect to FreeAgent''\<rparr>)"
proof -
  let ?msg = "js_or (searchParams_get (search loc) ''message'')
                    (JStr ''Failed to connect to FreeAgent'')"
  from assms
  have banner: "Settings_banner (fst (Settings_visit loc res))
                  = Some \<lparr>type = ''error'', message = ?msg\<rparr>"
    by (simp add: Settings_visit_def Settings_effect_def Settings_init_def Let_def
        oauth_callback_def searchParams_get_def Settings_banner_def Settings_render_def)
  show ?thesis
  proof (intro conjI impI)
    assume m: "map_of (search loc) ''message'' = Some M"
    show "\<exists>shown. Settings_banner (fst (Settings_visit loc res))
                     = Some \<lparr>type = ''error'', message = JStr shown\<rparr> \<and> sublist M shown"
    proof (cases "M = []")
      case True
      with m banner show ?thesis by (simp add: searchParams_get_def js_or_def)
    next
      case False
      with m banner show ?thesis by (simp add: searchParams_get_def js_or_def)
    qed
  next
    assume "map_of (search loc) ''message'' = None"
    with banner show "Settings_banner (fst (Settings_visit loc res))
        = Some \<lparr>type = ''error'', message = JStr ''Failed to connect to FreeAgent''\<rparr>"
      by (simp add: searchParams_get_def js_or_def)
  qed
qed

theorem oauth_error_banner_witness:
  "(\<exists>shown. Settings_banner (fst (Settings_visit
        \<lparr>pathname = ''/settings'',
         search = [(''oauth'', ''error''), (''message'', ''Denied'')]\<rparr> (Inr (JObj []))))
       = Some \<lparr>type = ''error'', message = JStr shown\<rparr> \<and> sublist ''Denied'' shown)
   \<and> Settings_banner (fst (Settings_visit
        \<lparr>pathname = ''/settings'', search = [(''oauth'', ''error'')]\<rparr> (Inr (JObj []))))
       = Some \<lparr>type = ''error'', message = JStr ''Failed to connect to FreeAgent''\<rparr>"
  using oauth_error_banner
          [where loc = "\<lparr>pathname = ''/settings'',
                          search = [(''oauth'', ''error''), (''message'', ''Denied'')]\<rparr>"
             and M = "''Denied''" and res = "Inr (JObj [])"]
        oauth_error_banner
          [where loc = "\<lparr>pathname = ''/settings'', search = [(''oauth'', ''error'')]\<rparr>"
             and res = "Inr (JObj [])"]
  by simp

section \<open>The connect button of Settings\<close>

text \<open>
  C10: the "Connect to FreeAgent" button is disabled whenever the \<open>freeagent_client_id\<close>
  field is empty, and while a connect request is in flight; a click then calls no handler,
  so no authorize request is issued with a blank client id.
\<close>

theorem connect_disabled_when_blank:
  assumes "freeagent_client_id (credentials st) = JStr [] \<or> connecting st"
  shows "map_option connect_btn_disabled (Settings_render st) \<noteq> Some (Some False)
       \<and> (\<not> loading st \<and> \<not> truthy (isConnected st)
          \<longrightarrow> map_option connect_btn_disabled (Settings_render st) = Some (Some True))
       \<and> click_connect authRes (st, reqs) = (st, reqs)"
proof -
  from assms have off: "connecting st \<or> \<not> truthy (freeagent_client_id (credentials st))"
    by auto
  then have view: "map_option connect_btn_disabled (Settings_render st) =
      (if loading st then None
       else if truthy (isConnected st) then Some None else Some (Some True))"
    by (simp add: Settings_render_def)
  from off have "click_connect authRes (st, reqs) = (st, reqs)"
    by (simp add: click_connect_def Settings_render_def)
  with view show ?thesis by simp
qed

theorem connect_disabled_when_blank_witness:
  "map_option connect_btn_disabled
      (Settings_render (fst (Settings_visit \<lparr>pathname = ''/settings'', search = []\<rparr>
                               (Inr (JObj [(''whmcs_url'', JStr ''https://billing.example.com'')])))))
     = Some (Some True)
   \<and> click_connect (Inr (JObj [(''authorization_url'', JStr ''https://api.freeagent.com/'')]))
        (fst (Settings_visit \<lparr>pathname = ''/settings'', search = []\<rparr>
                (Inr (JObj [(''whmcs_url'', JStr ''https://billing.example.com'')]))),
         [GetCredentials])
     = (fst (Settings_visit \<lparr>pathname = ''/settings'', search = []\<rparr>
                (Inr (JObj [(''whmcs_url'', JStr ''https://billing.example.com'')]))),
        [GetCredentials])"
  using connect_disabled_when_blank
          [where st = "fst (Settings_visit \<lparr>pathname = ''/settings'', search = []\<rparr>
                  (Inr (JObj [(''whmcs_url'', JStr ''https://billing.example.com'')])))"
             and authRes = "Inr (JObj [(''authorization_url'',
                                        JStr ''https://api.freeagent.com/'')])"
             and reqs = "[GetCredentials]"]
  by (simp add: Settings_visit_def Settings_effect_def Settings_init_def Let_def
      oauth_callback_def searchParams_get_def fetchCredentials_resolved_truthy
      opt_chain_def js_or_def)

section \<open>The Logs page\<close>

text \<open>
  C8: for every sequence of log entries returned by \<open>GET /sync/logs?limit=100\<close>, the Logs
  page renders one element per entry, in the order returned; when the sequence is empty it
  renders the empty-state message instead of a list.
\<close>

theorem logs_rendered_in_order:
  "Logs_render formatDate (fst (fetchLogs (Inr entries) (st, reqs)))
     = (if entries = [] then Logs_empty_state
        else Logs_list (map (render_entry formatDate) entries))
   \<and> map key (map (render_entry formatDate) entries) = map entry_id entries
   \<and> snd (fetchLogs (Inr entries) (st, reqs)) = reqs @ [GetSyncLogs 100]"
proof -
  have keys: "map key (map (render_entry formatDate) entries) = map entry_id entries"
    by (induction entries) (simp_all add: render_entry_def)
  have "logs (fst (fetchLogs (Inr entries) (st, reqs))) = entries"
    and "\<not> loading (fst (fetchLogs (Inr entries) (st, reqs)))"
    by (simp_all add: fetchLogs_def)
  then have "Logs_render formatDate (fst (fetchLogs (Inr entries) (st, reqs)))
     = (if entries = [] then Logs_empty_state
        else Logs_list (map (render_entry formatDate) entries))"
    by (simp add: Logs_render_def)
  with keys show ?thesis by (simp add: fetchLogs_def)
qed

theorem logs_rendered_in_order_witness:
  "Logs_render (\<lambda>s. s) (fst (fetchLogs (Inr [
       \<lparr>entry_id = ''b7'', sync_type = ''manual'', status = ''success'',
                timestamp = ''2024-05-02T10:00:00'', entry_message = ''Sync completed'',
                invoices_processed = 4, invoices_created = 3, clients_created = 1,
                payments_synced = 0, errors = Some []\<rparr>, 
       \<lparr>entry_id = ''a3'', sync_type = ''scheduled'', status = ''error'',
                timestamp = ''2024-05-01T10:00:00'', entry_message = ''Sync failed'',
                invoices_processed = 0, invoices_created = 0, clients_created = 0,
                payments_synced = 0, errors = Some [''WHMCS unreachable'']\<rparr>]) (Logs_init, [])))
     = Logs_list [render_entry (\<lambda>s. s) 
       \<lparr>entry_id = ''b7'', sync_type = ''manual'', status = ''success'',
                timestamp = ''2024-05-02T10:00:00'', entry_message = ''Sync completed'',
                invoices_processed = 4, invoices_created = 3, clients_created = 1,
                payments_synced = 0, errors = Some []\<rparr>, render_entry (\<lambda>s. s) 
       \<lparr>entry_id = ''a3'', sync_type = ''scheduled'', status = ''error'',
                timestamp = ''2024-05-01T10:00:00'', entry_message = ''Sync failed'',
                invoices_processed = 0, invoices_created = 0, clients_created = 0,
                payments_synced = 0, errors = Some [''WHMCS unreachable'']\<rparr>]
   \<and> map key [render_entry (\<lambda>s. s) 
       \<lparr>entry_id = ''b7'', sync_type = ''manual'', status = ''success'',
                timestamp = ''2024-05-02T10:00:00'', entry_message = ''Sync completed'',
                invoices_processed = 4, invoices_created = 3, clients_created = 1,
                payments_synced = 0, errors = Some []\<rparr>, render_entry (\<lambda>s. s) 
       \<lparr>entry_id = ''a3'', sync_type = ''scheduled'', status = ''error'',
                timestamp = ''2024-05-01T10:00:00'', entry_message = ''Sync failed'',
                invoices_processed = 0, invoices_created = 0, clients_created = 0,
                payments_synced = 0, errors = Some [''WHMCS unreachable'']\<rparr>] = [''b7'', ''a3'']
   \<and> Logs_render (\<lambda>s. s) (fst (fetchLogs (Inr []) (Logs_init, []))) = Logs_empty_state"
  using logs_rendered_in_order
          [where formatDate = "\<lambda>s. s" and entries = "[
       \<lparr>entry_id = ''b7'', sync_type = ''manual'', status = ''success'',
                timestamp = ''2024-05-02T10:00:00'', entry_message = ''Sync completed'',
                invoices_processed = 4, invoices_created = 3, clients_created = 1,
                payments_synced = 0, errors = Some []\<rparr>, 
       \<lparr>entry_id = ''a3'', sync_type = ''scheduled'', status = ''error'',
                timestamp = ''2024-05-01T10:00:00'', entry_message = ''Sync failed'',
                invoices_processed = 0, invoices_created = 0, clients_created = 0,
                payments_synced = 0, errors = Some [''WHMCS unreachable'']\<rparr>]"
             and st = Logs_init and reqs = "[]"]
        logs_rendered_in_order
          [where formatDate = "\<lambda>s. s" and entries = "[]" and st = Logs_init and reqs = "[]"]
  by simp

end
